theory Spec2Isabelle
  imports Main "HOL-Library.Word" "HOL-Library.AList"
begin

section \<open>The reflection interface the walker reads\<close>

text \<open>
  The schema generator is written against Go's package \<open>reflect\<close>. This section models the
  part of that interface the generator calls: a type descriptor (\<open>reflect.Type\<close>), a value
  handle (\<open>reflect.Value\<close>) and the handful of operations used by the walker. An operation
  that panics in Go returns \<open>Inl\<close> of an error here.
\<close>

text \<open>The constants of \<open>reflect.Kind\<close>, written with a leading K.\<close>

datatype kind =
    KInvalid | KBool
  | KInt | KInt8 | KInt16 | KInt32 | KInt64
  | KUint | KUint8 | KUint16 | KUint32 | KUint64 | KUintptr
  | KFloat32 | KFloat64 | KComplex64 | KComplex128
  | KArray | KChan | KFunc | KInterface | KMap | KPtr | KSlice | KString | KStruct
  | KUnsafePointer

text \<open>
  The five interfaces of \<open>reflect_types.go\<close> whose implementation the walker tests with
  \<open>t.Implements\<close>; each constructor stands for the \<open>reflect.Type\<close> of that interface.
\<close>

datatype iface = typePBEnum | typeOneOf | typeAnyOf | typeAllOf | typeEnum

text \<open>
  A type descriptor: name and package path (both empty for an unnamed type), kind, element
  type (pointer, slice, array, map, channel), length (array), fields (struct), the method
  set of the type and the methods that only the pointer to it has. A struct tag is kept in
  parsed form, as the list of its \<open>key:"value"\<close> pairs in the order written. Descriptors
  are finite trees, so a type that mentions itself is outside this model.
\<close>

datatype rtype =
  RType (Name: string) (TypePkgPath: string) (Kind: kind) (elem: "rtype option") (len: nat)
        (fields: "StructField list") (Methods: "iface list") (PtrMethods: "iface list")
and StructField =
  StructField (FieldName: string) (PkgPath: string) (FieldType: rtype)
              (Tag: "(string \<times> string) list") (Anonymous: bool)

datatype error = OutOfFuel | Panic string

definition Implements :: "rtype \<Rightarrow> iface \<Rightarrow> bool" where
  "Implements t i = (i \<in> set (Methods t))"

text \<open>\<open>t.Elem()\<close> panics unless the kind is Array, Chan, Map, Ptr or Slice.\<close>

definition Elem :: "rtype \<Rightarrow> error + rtype" where
  "Elem t =
     (if Kind t \<in> {KArray, KChan, KMap, KPtr, KSlice}
      then (case elem t of Some e \<Rightarrow> Inr e | None \<Rightarrow> Inl (Panic ''reflect: Elem of invalid type''))
      else Inl (Panic ''reflect: Elem of invalid type''))"

text \<open>
  The pointer type to \<open>t\<close>, as \<open>reflect.New\<close> builds it: unnamed, and with the methods of
  \<open>t\<close> of either receiver unless \<open>t\<close> is itself a pointer or an interface.
\<close>

definition PtrTo :: "rtype \<Rightarrow> rtype" where
  "PtrTo t =
     RType [] [] KPtr (Some t) 0 []
       (if Kind t = KPtr \<or> Kind t = KInterface then [] else Methods t @ PtrMethods t) []"

text \<open>
  The contents of a value. \<open>DNil\<close> is the nil pointer, interface, slice, map, channel or
  function; \<open>DPtr\<close> holds the pointee, \<open>DIface\<close> the dynamic type and value inside an
  interface; a float is kept as its bit pattern, as the walker only passes it on.
\<close>

datatype data =
    DBool bool | DInt int | DFloat "64 word" | DString string
  | DNil | DPtr data | DIface rtype data
  | DStruct "data list" | DSeq "data list" | DMap "(data \<times> data) list" | DOpaque

text \<open>\<open>reflect.Value\<close>: the zero Value, or a type with contents.\<close>

datatype Value = NoValue | Value rtype data

text \<open>A Go \<open>interface{}\<close>: nil, or a dynamic type with contents.\<close>

type_synonym any = "(rtype \<times> data) option"

definition TypeOf :: "any \<Rightarrow> rtype option" where
  "TypeOf x = map_option fst x"

definition ValueOf :: "any \<Rightarrow> Value" where
  "ValueOf x = (case x of None \<Rightarrow> NoValue | Some (t, d) \<Rightarrow> Value t d)"

primrec zero_data :: "rtype \<Rightarrow> data" and zero_field :: "StructField \<Rightarrow> data" where
  "zero_data (RType n p k e l fs ms pms) =
     (if k = KBool then DBool False
      else if k \<in> {KInt, KInt8, KInt16, KInt32, KInt64,
                    KUint, KUint8, KUint16, KUint32, KUint64, KUintptr} then DInt 0
      else if k \<in> {KFloat32, KFloat64} then DFloat 0
      else if k \<in> {KComplex64, KComplex128} then DOpaque
      else if k = KString then DString []
      else if k = KStruct then DStruct (map zero_field fs)
      else if k = KArray then
        (case map_option zero_data e of Some z \<Rightarrow> DSeq (replicate l z) | None \<Rightarrow> DSeq [])
      else DNil)"
| "zero_field (StructField n p t tg a) = zero_data t"

definition Zero :: "rtype \<Rightarrow> Value" where
  "Zero t = Value t (zero_data t)"

text \<open>\<open>reflect.New(t)\<close>: a pointer to a fresh zero value of \<open>t\<close>.\<close>

definition New :: "rtype \<Rightarrow> Value" where
  "New t = Value (PtrTo t) (DPtr (zero_data t))"

definition ValueKind :: "Value \<Rightarrow> kind" where
  "ValueKind v = (case v of NoValue \<Rightarrow> KInvalid | Value t d \<Rightarrow> Kind t)"

definition IsValid :: "Value \<Rightarrow> bool" where
  "IsValid v = (v \<noteq> NoValue)"

text \<open>
  \<open>v.Elem()\<close>. The walker calls it only on a value it has just found to be of kind Ptr or
  Interface, where it cannot panic; a nil pointer or interface gives the zero Value.
\<close>

definition ValueElem :: "Value \<Rightarrow> Value" where
  "ValueElem v =
     (case v of
        NoValue \<Rightarrow> NoValue
      | Value t d \<Rightarrow>
          (case d of
             DPtr x \<Rightarrow> (case elem t of Some e \<Rightarrow> Value e x | None \<Rightarrow> NoValue)
           | DIface dt x \<Rightarrow> Value dt x
           | _ \<Rightarrow> NoValue))"

definition Indirect :: "Value \<Rightarrow> Value" where
  "Indirect v = (if ValueKind v \<noteq> KPtr then v else ValueElem v)"

text \<open>\<open>v.Type()\<close> and \<open>v.Interface()\<close> panic on the zero Value.\<close>

definition ValueType :: "Value \<Rightarrow> error + rtype" where
  "ValueType v =
     (case v of
        NoValue \<Rightarrow> Inl (Panic ''reflect: call of reflect.Value.Type on zero Value'')
      | Value t d \<Rightarrow> Inr t)"

definition Interface :: "Value \<Rightarrow> error + any" where
  "Interface v =
     (case v of
        NoValue \<Rightarrow> Inl (Panic ''reflect: call of reflect.Value.Interface on zero Value'')
      | Value t d \<Rightarrow>
          Inr (if Kind t = KInterface
               then (case d of DIface dt x \<Rightarrow> Some (dt, x) | _ \<Rightarrow> None)
               else Some (t, d)))"

text \<open>\<open>v.Len()\<close> and \<open>v.Index(i)\<close> of a slice or an array, as \<open>getSliceValue\<close> calls them.\<close>

definition ValueLen :: "Value \<Rightarrow> error + nat" where
  "ValueLen v =
     (case v of
        NoValue \<Rightarrow> Inl (Panic ''reflect: call of reflect.Value.Len on zero Value'')
      | Value t d \<Rightarrow>
          if Kind t \<in> {KArray, KChan, KMap, KSlice, KString}
          then Inr (case d of DSeq xs \<Rightarrow> length xs | DString x \<Rightarrow> length x
                            | DMap kvs \<Rightarrow> length kvs | _ \<Rightarrow> 0)
          else Inl (Panic ''reflect: call of reflect.Value.Len on a Value without length''))"

definition Index :: "Value \<Rightarrow> nat \<Rightarrow> error + Value" where
  "Index v i =
     (case v of
        Value t (DSeq xs) \<Rightarrow>
          (case elem t of
             Some e \<Rightarrow> if i < length xs then Inr (Value e (xs ! i))
                       else Inl (Panic ''reflect: slice index out of range'')
           | None \<Rightarrow> Inl (Panic ''reflect: call of reflect.Value.Index on invalid Value''))
      | _ \<Rightarrow> Inl (Panic ''reflect: slice index out of range''))"

text \<open>
  The members of a struct value in declaration order, each \<open>v.Type().Field(i)\<close> with
  \<open>v.Field(i)\<close>; \<open>v.NumField()\<close> panics unless the kind is Struct.
\<close>

definition members :: "Value \<Rightarrow> error + (StructField \<times> Value) list" where
  "members v =
     (case v of
        NoValue \<Rightarrow> Inl (Panic ''reflect: call of reflect.Value.NumField on zero Value'')
      | Value t d \<Rightarrow>
          if Kind t \<noteq> KStruct
          then Inl (Panic ''reflect: call of reflect.Value.NumField on non-struct Value'')
          else Inr (map (\<lambda>i. (fields t ! i,
                               Value (FieldType (fields t ! i))
                                 (case d of
                                    DStruct xs \<Rightarrow> if i < length xs then xs ! i
                                                  else zero_data (FieldType (fields t ! i))
                                  | _ \<Rightarrow> zero_data (FieldType (fields t ! i)))))
                        [0..<length (fields t)]))"


section \<open>Schema nodes\<close>

text \<open>
  Modelled from the spec: the struct \<open>Type\<close>, the map type \<open>Definitions\<close> and the
  constructors \<open>newType\<close> and \<open>newReference\<close> are declared in a file that is not among the
  sources. The attributes below are the fields the source files read and write, with the
  types those uses give them. The attributes that hold no node are a record; the node adds
  the child nodes. A Go map from names to nodes is an association list with one pair per
  key, read with \<open>map_of\<close> and written with \<open>AList.update\<close>; a nil slice or map is the
  empty list, a nil node pointer is \<open>None\<close>.
\<close>

record Attrs =
  Version :: string
  Type :: string
  Format :: string
  Title :: string
  Ref :: string
  Default :: any
  Enum :: "any list"
  Required :: "string list"
  AdditionalProperties :: string
  BinaryEncoding :: string
  MinLength :: int
  MaxLength :: int
  MultipleOf :: int
  Minimum :: int
  Maximum :: int
  ExclusiveMinimum :: bool
  ExclusiveMaximum :: bool
  MinItems :: int
  MaxItems :: int
  UniqueItems :: bool

datatype Type =
  Node (attrs: Attrs) (Items: "Type option") (Media: "Type option")
       (OneOf: "Type list") (AnyOf: "Type list") (AllOf: "Type list")
       (Properties: "(string \<times> Type) list") (PatternProperties: "(string \<times> Type) list")
       (Definitions: "(string \<times> Type) list")

type_synonym Definitions = "(string \<times> Type) list"

definition tTypeObject :: string where "tTypeObject = ''object''"
definition tTypeString :: string where "tTypeString = ''string''"
definition tTypeInteger :: string where "tTypeInteger = ''integer''"
definition tTypeNumber :: string where "tTypeNumber = ''number''"
definition tTypeBoolean :: string where "tTypeBoolean = ''boolean''"
definition tTypeArray :: string where "tTypeArray = ''array''"

text \<open>The zero struct, \<open>Type{}\<close>.\<close>

definition noAttrs :: Attrs where
  "noAttrs =
     \<lparr>Version = [], Type = [], Format = [], Title = [], Ref = [], Default = None, Enum = [],
      Required = [], AdditionalProperties = [], BinaryEncoding = [],
      MinLength = 0, MaxLength = 0, MultipleOf = 0, Minimum = 0, Maximum = 0,
      ExclusiveMinimum = False, ExclusiveMaximum = False,
      MinItems = 0, MaxItems = 0, UniqueItems = False\<rparr>"

definition leaf :: "Attrs \<Rightarrow> Type" where
  "leaf a = Node a None None [] [] [] [] [] []"

text \<open>Assignment to the attributes of a node, and to its children.\<close>

definition with_attrs :: "(Attrs \<Rightarrow> Attrs) \<Rightarrow> Type \<Rightarrow> Type" where
  "with_attrs f n =
     (case n of Node a i m o1 o2 o3 p pp d \<Rightarrow> Node (f a) i m o1 o2 o3 p pp d)"

definition set_Items :: "Type option \<Rightarrow> Type \<Rightarrow> Type" where
  "set_Items x n = (case n of Node a i m o1 o2 o3 p pp d \<Rightarrow> Node a x m o1 o2 o3 p pp d)"

definition set_Media :: "Type option \<Rightarrow> Type \<Rightarrow> Type" where
  "set_Media x n = (case n of Node a i m o1 o2 o3 p pp d \<Rightarrow> Node a i x o1 o2 o3 p pp d)"

definition set_Properties :: "(string \<times> Type) list \<Rightarrow> Type \<Rightarrow> Type" where
  "set_Properties x n = (case n of Node a i m o1 o2 o3 p pp d \<Rightarrow> Node a i m o1 o2 o3 x pp d)"

text \<open>
  Modelled from the spec: \<open>newType\<close> is not among the sources. It returns a fresh node of the
  given kind whose \<open>Properties\<close> map can be written to, and nothing else set.
\<close>

definition newType :: "string \<Rightarrow> Type" where
  "newType k = leaf (noAttrs\<lparr>Type := k\<rparr>)"

text \<open>
  Modelled from the spec: \<open>newReference\<close> is not among the sources; \<open>schema_test.go\<close> quotes
  its body and tests that the reference to \<open>string\<close> is \<open>#/definitions/string\<close>.
\<close>

definition newReference :: "string \<Rightarrow> Type" where
  "newReference typ = leaf (noAttrs\<lparr>Ref := ''#/definitions/'' @ typ\<rparr>)"

section \<open>Field descriptors\<close>

record tags =
  name :: string
  title :: string
  required :: bool
  ignored :: bool
  minLength :: int
  maxLength :: int
  format :: string
  multipleOf :: int
  minimum :: int
  maximum :: int
  exclusiveMaximum :: bool
  exclusiveMinimum :: bool
  minItems :: int
  maxItems :: int
  uniqueItems :: bool
  showIf :: string
  hideIf :: string

definition tagName :: string where "tagName = ''name''"
definition tagNameJson :: string where "tagNameJson = ''json''"
definition tagTitle :: string where "tagTitle = ''title''"
definition tagRequired :: string where "tagRequired = ''required''"
definition tagIgnore :: string where "tagIgnore = ''ignore''"
definition tagStringMinLength :: string where "tagStringMinLength = ''minLength''"
definition tagStringMaxLength :: string where "tagStringMaxLength = ''maxLength''"
definition tagStringFormat :: string where "tagStringFormat = ''format''"
definition tagNumberMultipleOf :: string where "tagNumberMultipleOf = ''multipleOf''"
definition tagNumberMinimum :: string where "tagNumberMinimum = ''minimum''"
definition tagNumberMaximum :: string where "tagNumberMaximum = ''maximum''"
definition tagNumberExclusiveMaximum :: string where
  "tagNumberExclusiveMaximum = ''exclusiveMaximum''"
definition tagNumberExclusiveMinimum :: string where
  "tagNumberExclusiveMinimum = ''exclusiveMinimum''"
definition tagArrayMinItems :: string where "tagArrayMinItems = ''minItems''"
definition tagArrayMaxItems :: string where "tagArrayMaxItems = ''maxItems''"
definition tagArrayUniqueItems :: string where "tagArrayUniqueItems = ''uniqueItems''"
definition tagConditionShowIf :: string where "tagConditionShowIf = ''show_if''"
definition tagConditionHideIf :: string where "tagConditionHideIf = ''hide_if''"

text \<open>\<open>tag.Lookup\<close> and \<open>tag.Get\<close> on the parsed struct tag: the first pair with the key.\<close>

definition Lookup :: "(string \<times> string) list \<Rightarrow> string \<Rightarrow> string option" where
  "Lookup tg k = map_of tg k"

definition Get :: "(string \<times> string) list \<Rightarrow> string \<Rightarrow> string" where
  "Get tg k = (case map_of tg k of Some x \<Rightarrow> x | None \<Rightarrow> [])"

text \<open>
  \<open>strconv.ParseBool\<close> and \<open>strconv.Atoi\<close> with the error dropped, as \<open>parseTags\<close> calls
  them: an unreadable text gives \<open>false\<close> or \<open>0\<close>, a decimal number beyond 64 bits the
  nearest bound.
\<close>

definition ParseBool :: "string \<Rightarrow> bool" where
  "ParseBool s = (s \<in> set [''1'', ''t'', ''T'', ''TRUE'', ''true'', ''True''])"

definition digit_val :: "char \<Rightarrow> int" where
  "digit_val c = int (of_char c) - 48"

definition is_digit :: "char \<Rightarrow> bool" where
  "is_digit c = (48 \<le> (of_char c :: nat) \<and> (of_char c :: nat) \<le> 57)"

definition Atoi :: "string \<Rightarrow> int" where
  "Atoi s =
     (let neg = (s \<noteq> [] \<and> hd s = CHR ''-'');
          ds = (if s \<noteq> [] \<and> (hd s = CHR ''-'' \<or> hd s = CHR ''+'') then tl s else s)
      in if ds = [] \<or> \<not> list_all is_digit ds then 0
         else let n = foldl (\<lambda>a c. a * 10 + digit_val c) 0 ds
              in if neg then max (- (2 ^ 63)) (- n) else min (2 ^ 63 - 1) n)"

text \<open>\<open>strings.Split(s, ",")[0]\<close>: the text before the first comma.\<close>

definition first_part :: "string \<Rightarrow> string" where
  "first_part s = takeWhile (\<lambda>c. c \<noteq> CHR '','') s"

definition noTags :: tags where
  "noTags =
     \<lparr>name = [], title = [], required = False, ignored = False,
      minLength = 0, maxLength = 0, format = [],
      multipleOf = 0, minimum = 0, maximum = 0,
      exclusiveMaximum = False, exclusiveMinimum = False,
      minItems = 0, maxItems = 0, uniqueItems = False, showIf = [], hideIf = []\<rparr>"

text \<open>The assignments of \<open>parseTags\<close> that follow once the name \<open>n\<close> is settled.\<close>

definition parseFields :: "(string \<times> string) list \<Rightarrow> string \<Rightarrow> tags" where
  "parseFields tg n =
     \<lparr>name = n,
      title = Get tg tagTitle,
      required = ParseBool (Get tg tagRequired),
      ignored = ParseBool (Get tg tagIgnore),
      minLength = Atoi (Get tg tagStringMinLength),
      maxLength = Atoi (Get tg tagStringMaxLength),
      format = Get tg tagStringFormat,
      multipleOf = Atoi (Get tg tagNumberMultipleOf),
      minimum = Atoi (Get tg tagNumberMinimum),
      maximum = Atoi (Get tg tagNumberMaximum),
      exclusiveMaximum = ParseBool (Get tg tagNumberExclusiveMaximum),
      exclusiveMinimum = ParseBool (Get tg tagNumberExclusiveMinimum),
      minItems = Atoi (Get tg tagArrayMinItems),
      maxItems = Atoi (Get tg tagArrayMaxItems),
      uniqueItems = ParseBool (Get tg tagArrayUniqueItems),
      showIf = Get tg tagConditionShowIf,
      hideIf = Get tg tagConditionHideIf\<rparr>"

definition parseTags :: "(string \<times> string) list \<Rightarrow> tags" where
  "parseTags tg =
     (case Lookup tg tagName of
        Some n \<Rightarrow> parseFields tg n
      | None \<Rightarrow>
          if first_part (Get tg tagNameJson) = ''-'' then noTags\<lparr>ignored := True\<rparr>
          else parseFields tg (first_part (Get tg tagNameJson)))"

definition applyValidation :: "Type \<Rightarrow> tags \<Rightarrow> Type" where
  "applyValidation dst t =
     (if Type (attrs dst) = tTypeString then
        with_attrs (\<lambda>a. a\<lparr>MinLength := minLength t, MaxLength := maxLength t,
                            Format := (if format t \<noteq> [] then format t else Format a)\<rparr>) dst
      else if Type (attrs dst) = tTypeNumber then
        with_attrs (\<lambda>a. a\<lparr>MultipleOf := multipleOf t, Minimum := minimum t,
                            Maximum := maximum t,
                            ExclusiveMinimum := exclusiveMinimum t,
                            ExclusiveMaximum := exclusiveMaximum t\<rparr>) dst
      else if Type (attrs dst) = tTypeArray then
        with_attrs (\<lambda>a. a\<lparr>MinItems := minItems t, MaxItems := maxItems t,
                            UniqueItems := uniqueItems t\<rparr>) dst
      else dst)"

definition applyInfo :: "Type \<Rightarrow> tags \<Rightarrow> Type" where
  "applyInfo dst t = with_attrs (\<lambda>a. a\<lparr>Title := title t\<rparr>) dst"


section \<open>The types the walker knows by identity\<close>

text \<open>
  The descriptors of \<open>time.Time\<close>, \<open>net.IP\<close>, \<open>url.URL\<close> and \<open>[]byte\<close>, as the standard
  library declares these types. None of them has a method of the five interfaces.
\<close>

definition predeclared :: "string \<Rightarrow> kind \<Rightarrow> rtype" where
  "predeclared n k = RType n [] k None 0 [] [] []"

definition unexported :: "string \<Rightarrow> string \<Rightarrow> rtype \<Rightarrow> StructField" where
  "unexported pkg n t = StructField n pkg t [] False"

definition exported :: "string \<Rightarrow> rtype \<Rightarrow> StructField" where
  "exported n t = StructField n [] t [] False"

definition sliceOf :: "rtype \<Rightarrow> rtype" where
  "sliceOf t = RType [] [] KSlice (Some t) 0 [] [] []"

definition pointerTo :: "rtype \<Rightarrow> rtype" where
  "pointerTo t = RType [] [] KPtr (Some t) 0 [] [] []"

definition typeLocation :: rtype where
  "typeLocation =
     RType ''Location'' ''time'' KStruct None 0
       [unexported ''time'' ''name'' (predeclared ''string'' KString),
        unexported ''time'' ''zone''
          (sliceOf (RType ''zone'' ''time'' KStruct None 0
             [unexported ''time'' ''name'' (predeclared ''string'' KString),
              unexported ''time'' ''offset'' (predeclared ''int'' KInt),
              unexported ''time'' ''isDST'' (predeclared ''bool'' KBool)] [] [])),
        unexported ''time'' ''tx''
          (sliceOf (RType ''zoneTrans'' ''time'' KStruct None 0
             [unexported ''time'' ''when'' (predeclared ''int64'' KInt64),
              unexported ''time'' ''index'' (predeclared ''uint8'' KUint8),
              unexported ''time'' ''isstd'' (predeclared ''bool'' KBool),
              unexported ''time'' ''isutc'' (predeclared ''bool'' KBool)] [] [])),
        unexported ''time'' ''extend'' (predeclared ''string'' KString),
        unexported ''time'' ''cacheStart'' (predeclared ''int64'' KInt64),
        unexported ''time'' ''cacheEnd'' (predeclared ''int64'' KInt64),
        unexported ''time'' ''cacheZone''
          (pointerTo (RType ''zone'' ''time'' KStruct None 0
             [unexported ''time'' ''name'' (predeclared ''string'' KString),
              unexported ''time'' ''offset'' (predeclared ''int'' KInt),
              unexported ''time'' ''isDST'' (predeclared ''bool'' KBool)] [] []))]
       [] []"

definition typeTime :: rtype where
  "typeTime =
     RType ''Time'' ''time'' KStruct None 0
       [unexported ''time'' ''wall'' (predeclared ''uint64'' KUint64),
        unexported ''time'' ''ext'' (predeclared ''int64'' KInt64),
        unexported ''time'' ''loc'' (pointerTo typeLocation)]
       [] []"

definition typeIP :: rtype where
  "typeIP = RType ''IP'' ''net'' KSlice (Some (predeclared ''uint8'' KUint8)) 0 [] [] []"

definition typeURI :: rtype where
  "typeURI =
     RType ''URL'' ''net/url'' KStruct None 0
       [exported ''Scheme'' (predeclared ''string'' KString),
        exported ''Opaque'' (predeclared ''string'' KString),
        exported ''User''
          (pointerTo (RType ''Userinfo'' ''net/url'' KStruct None 0
             [unexported ''net/url'' ''username'' (predeclared ''string'' KString),
              unexported ''net/url'' ''password'' (predeclared ''string'' KString),
              unexported ''net/url'' ''passwordSet'' (predeclared ''bool'' KBool)] [] [])),
        exported ''Host'' (predeclared ''string'' KString),
        exported ''Path'' (predeclared ''string'' KString),
        exported ''RawPath'' (predeclared ''string'' KString),
        exported ''OmitHost'' (predeclared ''bool'' KBool),
        exported ''ForceQuery'' (predeclared ''bool'' KBool),
        exported ''RawQuery'' (predeclared ''string'' KString),
        exported ''Fragment'' (predeclared ''string'' KString),
        exported ''RawFragment'' (predeclared ''string'' KString)]
       [] []"

definition typeByteSlice :: rtype where
  "typeByteSlice = sliceOf (predeclared ''uint8'' KUint8)"

section \<open>The handlers of \<open>reflect_types.go\<close>\<close>

text \<open>
  The walker and its handlers call each other, and nothing bounds the depth of these calls:
  a capability may return a variant of its own type. A handler therefore takes the walker it
  calls back as its first argument \<open>rt\<close>, and the walker is defined further down by
  recursion on a bound on the depth of calls. Every function takes the registry
  \<open>Definitions\<close> that the Go code mutates in place, and returns it with the node.

  The methods \<open>OneOf\<close>, \<open>AnyOf\<close>, \<open>AllOf\<close> and \<open>Enum\<close> belong to the types of the caller.
  They are the parameter \<open>M\<close>: \<open>M i t d\<close> is what the method of interface \<open>i\<close> returns on a
  receiver of type \<open>t\<close> with contents \<open>d\<close>.
\<close>

type_synonym result = "error + (Type \<times> Definitions)"
type_synonym walker = "Definitions \<Rightarrow> rtype option \<Rightarrow> Value \<Rightarrow> bool \<Rightarrow> result"
type_synonym struct_walker = "Definitions \<Rightarrow> Value \<Rightarrow> result"
type_synonym methods = "iface \<Rightarrow> rtype \<Rightarrow> data \<Rightarrow> any list"

text \<open>The type assertion \<open>x.(I)\<close> followed by the call of the method of \<open>I\<close>.\<close>

definition call :: "methods \<Rightarrow> iface \<Rightarrow> any \<Rightarrow> error + any list" where
  "call M i x =
     (case x of
        None \<Rightarrow> Inl (Panic ''interface conversion: interface is nil'')
      | Some (t, d) \<Rightarrow>
          if Implements t i then Inr (M i t d)
          else Inl (Panic ''interface conversion: missing method''))"

definition reflectTime :: "Definitions \<Rightarrow> Value \<Rightarrow> Type" where
  "reflectTime definition v = leaf (noAttrs\<lparr>Type := tTypeString, Format := ''date-time''\<rparr>)"

definition reflectIP :: "Definitions \<Rightarrow> Value \<Rightarrow> Type" where
  "reflectIP definition v = leaf (noAttrs\<lparr>Type := tTypeString, Format := ''ipv4''\<rparr>)"

definition reflectURI :: "Definitions \<Rightarrow> Value \<Rightarrow> Type" where
  "reflectURI definition v = leaf (noAttrs\<lparr>Type := tTypeString, Format := ''uri''\<rparr>)"

definition reflectPBEnum :: "Definitions \<Rightarrow> Value \<Rightarrow> Type" where
  "reflectPBEnum definition v =
     Node noAttrs None None
       [leaf (noAttrs\<lparr>Type := tTypeString\<rparr>), leaf (noAttrs\<lparr>Type := tTypeInteger\<rparr>)]
       [] [] [] [] []"

definition reflectEnum :: "methods \<Rightarrow> walker \<Rightarrow> Definitions \<Rightarrow> Value \<Rightarrow> result" where
  "reflectEnum M rt definition v =
     (case Interface v of Inl e \<Rightarrow> Inl e | Inr x \<Rightarrow>
      case call M typeEnum x of Inl e \<Rightarrow> Inl e | Inr variants \<Rightarrow>
      case variants of
        [] \<Rightarrow> Inl (Panic ''runtime error: index out of range [0] with length 0'')
      | v0 # rest \<Rightarrow>
          (case rt definition (TypeOf v0) (ValueOf v0) False of Inl e \<Rightarrow> Inl e
           | Inr (vType, defs) \<Rightarrow>
               Inr (leaf (noAttrs\<lparr>Type := Type (attrs vType), Enum := variants,
                                   Default := x\<rparr>), defs)))"

text \<open>The loop over the variants that \<open>reflectOneOf\<close>, \<open>reflectAnyOf\<close> and \<open>reflectAllOf\<close> share.\<close>

primrec walk_variants :: "walker \<Rightarrow> Definitions \<Rightarrow> any list \<Rightarrow> error + (Type list \<times> Definitions)"
where
  "walk_variants rt defs [] = Inr ([], defs)"
| "walk_variants rt defs (variant # rest) =
     (case rt defs (TypeOf variant) (ValueOf variant) False of Inl e \<Rightarrow> Inl e
      | Inr (n, defs1) \<Rightarrow>
          (case walk_variants rt defs1 rest of Inl e \<Rightarrow> Inl e
           | Inr (ns, defs2) \<Rightarrow> Inr (n # ns, defs2)))"

definition reflectOneOf :: "methods \<Rightarrow> walker \<Rightarrow> Definitions \<Rightarrow> Value \<Rightarrow> result" where
  "reflectOneOf M rt definition v =
     (case Interface v of Inl e \<Rightarrow> Inl e | Inr x \<Rightarrow>
      case call M typeOneOf x of Inl e \<Rightarrow> Inl e | Inr variants \<Rightarrow>
      case walk_variants rt definition variants of Inl e \<Rightarrow> Inl e
      | Inr (oneOf, defs) \<Rightarrow>
          Inr (Node (noAttrs\<lparr>Default := x\<rparr>) None None oneOf [] [] [] [] [], defs))"

definition reflectAnyOf :: "methods \<Rightarrow> walker \<Rightarrow> Definitions \<Rightarrow> Value \<Rightarrow> result" where
  "reflectAnyOf M rt definition v =
     (case Interface v of Inl e \<Rightarrow> Inl e | Inr x \<Rightarrow>
      case call M typeAnyOf x of Inl e \<Rightarrow> Inl e | Inr variants \<Rightarrow>
      case walk_variants rt definition variants of Inl e \<Rightarrow> Inl e
      | Inr (anyOf, defs) \<Rightarrow>
          Inr (Node (noAttrs\<lparr>Default := x\<rparr>) None None [] anyOf [] [] [] [], defs))"

definition reflectAllOf :: "methods \<Rightarrow> walker \<Rightarrow> Definitions \<Rightarrow> Value \<Rightarrow> result" where
  "reflectAllOf M rt definition v =
     (case Interface v of Inl e \<Rightarrow> Inl e | Inr x \<Rightarrow>
      case call M typeAllOf x of Inl e \<Rightarrow> Inl e | Inr variants \<Rightarrow>
      case walk_variants rt definition variants of Inl e \<Rightarrow> Inl e
      | Inr (allOf, defs) \<Rightarrow>
          Inr (Node (noAttrs\<lparr>Default := x\<rparr>) None None [] [] allOf [] [] [], defs))"

definition reflectSlice :: "walker \<Rightarrow> Definitions \<Rightarrow> Value \<Rightarrow> result" where
  "reflectSlice rt definition v =
     (case ValueType v of Inl e \<Rightarrow> Inl e | Inr t \<Rightarrow>
      let returnType =
            (if Kind t = KArray
             then with_attrs (\<lambda>a. a\<lparr>MinItems := int (len t), MaxItems := int (len t)\<rparr>)
                    (newType [])
             else newType [])
      in case Elem t of Inl e \<Rightarrow> Inl e | Inr et \<Rightarrow>
         let elemValue = New et
         in if t = typeByteSlice
            then Inr (set_Media (Some (leaf (noAttrs\<lparr>BinaryEncoding := ''base64''\<rparr>)))
                        (with_attrs (\<lambda>a. a\<lparr>Type := tTypeString\<rparr>) returnType),
                      definition)
            else (case rt definition (Some (PtrTo et)) elemValue False of Inl e \<Rightarrow> Inl e
                  | Inr (items, defs) \<Rightarrow>
                      Inr (set_Items (Some items)
                             (with_attrs (\<lambda>a. a\<lparr>Type := ''array''\<rparr>) returnType),
                           defs)))"

definition reflectMap :: "walker \<Rightarrow> Definitions \<Rightarrow> Value \<Rightarrow> result" where
  "reflectMap rt definitions v =
     (case ValueType v of Inl e \<Rightarrow> Inl e | Inr t \<Rightarrow>
      case Elem t of Inl e \<Rightarrow> Inl e | Inr val \<Rightarrow>
      case rt definitions (Some val) (New val) False of Inl e \<Rightarrow> Inl e
      | Inr (n, defs) \<Rightarrow>
          Inr (Node (noAttrs\<lparr>Type := tTypeObject\<rparr>) None None [] [] [] []
                 (AList.delete ''additionalProperties'' [(''.*'', n)]) [],
               defs))"

definition reflectInteger :: "Definitions \<Rightarrow> Value \<Rightarrow> error + Type" where
  "reflectInteger definitions v =
     (case Interface v of Inl e \<Rightarrow> Inl e
      | Inr x \<Rightarrow> Inr (leaf (noAttrs\<lparr>Type := tTypeInteger, Default := x\<rparr>)))"

definition reflectNumber :: "Definitions \<Rightarrow> Value \<Rightarrow> error + Type" where
  "reflectNumber definitions v =
     (case Interface v of Inl e \<Rightarrow> Inl e
      | Inr x \<Rightarrow> Inr (leaf (noAttrs\<lparr>Type := tTypeNumber, Default := x\<rparr>)))"

definition reflectBool :: "Definitions \<Rightarrow> Value \<Rightarrow> error + Type" where
  "reflectBool definitions v =
     (case Interface v of Inl e \<Rightarrow> Inl e
      | Inr x \<Rightarrow> Inr (leaf (noAttrs\<lparr>Type := tTypeBoolean, Default := x\<rparr>)))"

definition reflectString :: "Definitions \<Rightarrow> Value \<Rightarrow> error + Type" where
  "reflectString definitions v =
     (case Interface v of Inl e \<Rightarrow> Inl e
      | Inr x \<Rightarrow> Inr (leaf (noAttrs\<lparr>Type := tTypeString, Default := x\<rparr>)))"

definition reflectInterface :: "Definitions \<Rightarrow> rtype \<Rightarrow> Value \<Rightarrow> Type" where
  "reflectInterface definitions t v =
     leaf (noAttrs\<lparr>Type := tTypeObject, AdditionalProperties := ''true''\<rparr>)"

text \<open>
  \<open>getSliceValue\<close> of the later revision of \<open>reflect_types.go\<close>: the first element of a
  sequence, or a pointer to a fresh zero element when it is empty. No function of either
  revision calls it.
\<close>

definition getSliceValue :: "Value \<Rightarrow> error + Value" where
  "getSliceValue v =
     (case ValueLen v of Inl e \<Rightarrow> Inl e
      | Inr n \<Rightarrow>
          if 0 < n then Index v 0
          else (case ValueType v of Inl e \<Rightarrow> Inl e | Inr t \<Rightarrow>
                case Elem t of Inl e \<Rightarrow> Inl e | Inr et \<Rightarrow> Inr (New et)))"


section \<open>The walker of \<open>reflect.go\<close>\<close>

text \<open>
  \<open>for k, v := range src { dst[k] = v }\<close>, as \<open>reflectStruct\<close> runs it on the definitions
  and on the properties of an embedded member.
\<close>

definition copy_into :: "(string \<times> Type) list \<Rightarrow> (string \<times> Type) list \<Rightarrow> (string \<times> Type) list"
where
  "copy_into src dst = fold (\<lambda>(k, v). AList.update k v) src dst"

text \<open>
  One round of the loop of \<open>reflectStruct\<close>, on the member \<open>structField\<close> with value
  \<open>structValue\<close>; \<open>rs\<close> is \<open>reflectStruct\<close> itself, called on an embedded member. An embedded
  member is not skipped after its properties are copied: the round goes on to its tag.
  \<open>reflectType\<close> returns no nil node, so the test \<open>fieldType == nil\<close> has no branch here.
\<close>

definition reflectField ::
  "walker \<Rightarrow> struct_walker \<Rightarrow> StructField \<times> Value \<Rightarrow> Definitions \<Rightarrow> Type \<Rightarrow> result"
where
  "reflectField rt rs m definitions currentType =
     (case m of (structField, structValue) \<Rightarrow>
        if PkgPath structField \<noteq> [] then Inr (currentType, definitions)
        else
          (case (if Anonymous structField
                 then (case rs definitions structValue of Inl e \<Rightarrow> Inl e
                       | Inr (typ, defs) \<Rightarrow>
                           Inr (set_Properties
                                  (copy_into (Properties typ) (Properties currentType))
                                  currentType,
                                copy_into (Definitions typ) defs))
                 else Inr (currentType, definitions))
           of Inl e \<Rightarrow> Inl e
           | Inr (cur, defs) \<Rightarrow>
               let tags = parseTags (Tag structField)
               in if name tags = [] \<or> ignored tags then Inr (cur, defs)
                  else (case rt defs (Some (FieldType structField)) structValue False of
                          Inl e \<Rightarrow> Inl e
                        | Inr (fieldType, defs') \<Rightarrow>
                            Inr (set_Properties
                                   (AList.update (name tags)
                                      (applyValidation (applyInfo fieldType tags) tags)
                                      (Properties cur))
                                   cur,
                                 defs'))))"

primrec reflectFields ::
  "walker \<Rightarrow> struct_walker \<Rightarrow> (StructField \<times> Value) list \<Rightarrow> Definitions \<Rightarrow> Type \<Rightarrow> result"
where
  "reflectFields rt rs [] definitions currentType = Inr (currentType, definitions)"
| "reflectFields rt rs (m # ms) definitions currentType =
     (case reflectField rt rs m definitions currentType of Inl e \<Rightarrow> Inl e
      | Inr (cur, defs) \<Rightarrow> reflectFields rt rs ms defs cur)"

definition reflectStruct_body :: "walker \<Rightarrow> struct_walker \<Rightarrow> Definitions \<Rightarrow> Value \<Rightarrow> result"
where
  "reflectStruct_body rt rs definitions v =
     (case members v of Inl e \<Rightarrow> Inl e
      | Inr ms \<Rightarrow> reflectFields rt rs ms definitions (newType tTypeObject))"

text \<open>
  The first two statements of \<open>reflectType\<close>: a pointer is followed, a nil pointer replaced
  by the zero value of \<open>t.Elem()\<close>; then the value inside an interface is taken out.
\<close>

definition deref :: "rtype \<Rightarrow> Value \<Rightarrow> error + Value" where
  "deref t v =
     (if ValueKind v = KPtr
      then (if \<not> IsValid (ValueElem v)
            then (case Elem t of Inl e \<Rightarrow> Inl e | Inr te \<Rightarrow> Inr (Zero te))
            else Inr (ValueElem v))
      else Inr v)"

definition unwrap :: "Value \<Rightarrow> Value" where
  "unwrap v = (if ValueKind v = KInterface then Indirect (ValueElem v) else v)"

text \<open>The three switches of \<open>reflectType\<close>, on the value left by the two statements above.\<close>

definition dispatch ::
  "methods \<Rightarrow> walker \<Rightarrow> struct_walker \<Rightarrow> Definitions \<Rightarrow> rtype \<Rightarrow> Value \<Rightarrow> bool \<Rightarrow> result"
where
  "dispatch M rt rs definitions t v root =
     (if t = typeTime then Inr (reflectTime definitions v, definitions)
      else if t = typeIP then Inr (reflectIP definitions v, definitions)
      else if t = typeURI then Inr (reflectURI definitions v, definitions)
      else if Implements t typePBEnum then Inr (reflectPBEnum definitions v, definitions)
      else if Implements t typeOneOf then reflectOneOf M rt definitions v
      else if Implements t typeAnyOf then reflectAnyOf M rt definitions v
      else if Implements t typeAllOf then reflectAllOf M rt definitions v
      else if Implements t typeEnum then reflectEnum M rt definitions v
      else if ValueKind v = KStruct then
        (case rs definitions v of Inl e \<Rightarrow> Inl e
         | Inr (currentType, defs) \<Rightarrow>
             if root then Inr (currentType, defs)
             else (case ValueType v of Inl e \<Rightarrow> Inl e
                   | Inr vt \<Rightarrow>
                       Inr (newReference (Name vt), AList.update (Name vt) currentType defs)))
      else if ValueKind v = KSlice then reflectSlice rt definitions v
      else if ValueKind v = KMap then reflectMap rt definitions v
      else if ValueKind v \<in> {KInt, KInt8, KInt16, KInt32, KInt64,
                              KUint, KUint8, KUint16, KUint32, KUint64} then
        (case reflectInteger definitions v of Inl e \<Rightarrow> Inl e
         | Inr n \<Rightarrow> Inr (n, definitions))
      else if ValueKind v \<in> {KFloat32, KFloat64} then
        (case reflectNumber definitions v of Inl e \<Rightarrow> Inl e
         | Inr n \<Rightarrow> Inr (n, definitions))
      else if ValueKind v = KBool then
        (case reflectBool definitions v of Inl e \<Rightarrow> Inl e
         | Inr n \<Rightarrow> Inr (n, definitions))
      else if ValueKind v = KString then
        (case reflectString definitions v of Inl e \<Rightarrow> Inl e
         | Inr n \<Rightarrow> Inr (n, definitions))
      else Inr (reflectInterface definitions t v, definitions))"

text \<open>
  \<open>reflectType\<close> on a nil \<open>reflect.Type\<close> (the type of a nil \<open>interface{}\<close>) dereferences
  nil at \<open>t.Elem()\<close> or at \<open>t.Implements\<close>, whichever it reaches.
\<close>

definition reflectType_body ::
  "methods \<Rightarrow> walker \<Rightarrow> struct_walker \<Rightarrow> Definitions \<Rightarrow> rtype option \<Rightarrow> Value \<Rightarrow> bool \<Rightarrow> result"
where
  "reflectType_body M rt rs definitions t v root =
     (case t of
        None \<Rightarrow> Inl (Panic ''runtime error: invalid memory address or nil pointer dereference'')
      | Some ty \<Rightarrow>
          (case deref ty v of Inl e \<Rightarrow> Inl e
           | Inr v1 \<Rightarrow> dispatch M rt rs definitions ty (unwrap v1) root))"

text \<open>
  The walker. Its second argument bounds the depth of the calls of \<open>reflectType\<close> and
  \<open>reflectStruct\<close> inside one another; a walk that needs more ends in \<open>OutOfFuel\<close>.
\<close>

fun reflectType :: "methods \<Rightarrow> nat \<Rightarrow> walker"
and reflectStruct :: "methods \<Rightarrow> nat \<Rightarrow> struct_walker" where
  "reflectType M 0 definitions t v root = Inl OutOfFuel"
| "reflectType M (Suc n) definitions t v root =
     reflectType_body M (reflectType M n) (reflectStruct M n) definitions t v root"
| "reflectStruct M 0 definitions v = Inl OutOfFuel"
| "reflectStruct M (Suc n) definitions v =
     reflectStruct_body (reflectType M n) (reflectStruct M n) definitions v"

text \<open>
  \<open>Reflect\<close>. The constant \<open>Version\<close> is declared outside the sources and is the parameter
  \<open>version\<close>; the schema returned is the pair of the root node and the registry.
\<close>

definition Reflect :: "methods \<Rightarrow> string \<Rightarrow> nat \<Rightarrow> any \<Rightarrow> result" where
  "Reflect M version n x =
     (case reflectType M n [] (TypeOf x) (Indirect (ValueOf x)) True of Inl e \<Rightarrow> Inl e
      | Inr (root, definitions) \<Rightarrow>
          Inr (with_attrs (\<lambda>a. a\<lparr>Version := version\<rparr>) root, definitions))"

section \<open>Types and values used as examples\<close>

text \<open>A program none of whose types has a method of the five interfaces that returns anything.\<close>

definition noMethods :: methods where
  "noMethods = (\<lambda>i t d. [])"

definition tString :: rtype where "tString = predeclared ''string'' KString"
definition tInt :: rtype where "tInt = predeclared ''int'' KInt"

text \<open>\<open>type E string\<close> with a method \<open>Enum\<close>, which under \<open>noMethods\<close> returns no variant.\<close>

definition tEmptyEnum :: rtype where
  "tEmptyEnum = RType ''E'' ''main'' KString None 0 [] [typeEnum] []"

text \<open>
  \<open>type ProtoEnum int32\<close> of the tests, given the methods \<open>OneOf\<close> and \<open>Enum\<close> on top of
  its \<open>EnumDescriptor\<close>.
\<close>

definition tProtoEnum :: rtype where
  "tProtoEnum = RType ''ProtoEnum'' ''main'' KInt32 None 0 [] [typeEnum, typeOneOf, typePBEnum] []"

text \<open>
  The methods of the tests: \<open>OneOf\<close>, \<open>AnyOf\<close>, \<open>AllOf\<close> and \<open>Enum\<close> return the strings
  \<open>1\<close>, \<open>2\<close>, \<open>3\<close> on every receiver.
\<close>

definition threeStrings :: methods where
  "threeStrings =
     (\<lambda>i t d. [Some (tString, DString ''1''), Some (tString, DString ''2''),
                 Some (tString, DString ''3'')])"

text \<open>
  Three empty structs in the manner of \<open>implicitOneOfImpl\<close> of the tests, each with the
  methods of more than one of the interfaces.
\<close>

definition tOneOfImpl :: rtype where
  "tOneOfImpl =
     RType ''implicitOneOfImpl'' ''main'' KStruct None 0 []
       [typeEnum, typeAllOf, typeAnyOf, typeOneOf] []"

definition tAnyOfImpl :: rtype where
  "tAnyOfImpl =
     RType ''implicitAnyOfImpl'' ''main'' KStruct None 0 [] [typeEnum, typeAllOf, typeAnyOf] []"

definition tAllOfImpl :: rtype where
  "tAllOfImpl = RType ''implicitAllOfImpl'' ''main'' KStruct None 0 [] [typeEnum, typeAllOf] []"

text \<open>\<open>chan int\<close>.\<close>

definition tChan :: rtype where
  "tChan = RType [] [] KChan (Some tInt) 0 [] [] []"

text \<open>
  \<open>type GrandfatherType struct { FamilyName string `json:"family_name" required:"true"` }\<close>
  and a struct with two members of that type.
\<close>

definition tGrandfather :: rtype where
  "tGrandfather =
     RType ''GrandfatherType'' ''main'' KStruct None 0
       [StructField ''FamilyName'' [] tString
          [(''json'', ''family_name''), (''required'', ''true'')] False]
       [] []"


text \<open>
  \<open>type String string\<close> and \<open>type ColorPicker struct { String }\<close> of the tests, and the same
  pair with an unexported name: \<open>type str string\<close>, \<open>type picker struct { str }\<close>.
\<close>

definition tNamedString :: rtype where
  "tNamedString = RType ''String'' ''main'' KString None 0 [] [] []"

definition tColorPicker :: rtype where
  "tColorPicker =
     RType ''ColorPicker'' ''main'' KStruct None 0
       [StructField ''String'' [] tNamedString [] True] [] []"

definition tstr :: rtype where
  "tstr = RType ''str'' ''main'' KString None 0 [] [] []"

definition tpicker :: rtype where
  "tpicker =
     RType ''picker'' ''main'' KStruct None 0
       [StructField ''str'' ''main'' tstr [] True] [] []"

text \<open>\<open>struct { Age int `json:"age" minimum:"18" maximum:"120"` }\<close>.\<close>

definition tAged :: rtype where
  "tAged =
     RType ''Aged'' ''main'' KStruct None 0
       [StructField ''Age'' [] tInt
          [(''json'', ''age''), (''minimum'', ''18''), (''maximum'', ''120'')] False]
       [] []"

section \<open>Facts about the model\<close>

lemma well_known_no_methods [simp]:
  "\<not> Implements typeTime i" "\<not> Implements typeIP i" "\<not> Implements typeURI i"
  by (simp_all add: Implements_def typeTime_def typeIP_def typeURI_def)

text \<open>The loop over the members writes the properties of the node and nothing else of it.\<close>

lemma set_Properties_attrs [simp]: "attrs (set_Properties x n) = attrs n"
  by (cases n) (simp add: set_Properties_def)

lemma reflectField_attrs:
  "reflectField rt rs m definitions cur = Inr (cur', defs) \<Longrightarrow> attrs cur' = attrs cur"
  by (auto simp: reflectField_def Let_def split: prod.splits if_splits sum.splits)

lemma reflectFields_attrs:
  "reflectFields rt rs ms definitions cur = Inr (cur', defs) \<Longrightarrow> attrs cur' = attrs cur"
proof (induction ms arbitrary: definitions cur)
  case Nil
  then show ?case by simp
next
  case (Cons m ms)
  then show ?case
    by (auto split: sum.splits dest: reflectField_attrs)
qed

text \<open>
  \<open>reflectStruct\<close> returns no node on a value that is not of struct kind, and the loop over
  the members returns none once the walk of an exported embedded member returns none.
\<close>

lemma reflectStruct_non_struct:
  assumes "ValueKind fv \<noteq> KStruct"
  shows "\<exists>msg. reflectStruct M (Suc k) definitions fv = Inl (Panic msg)"
    and "\<exists>e. reflectStruct M n definitions fv = Inl e"
proof -
  show p: "\<exists>msg. reflectStruct M (Suc k) definitions fv = Inl (Panic msg)" for k
    using assms
    by (cases fv) (auto simp: reflectStruct_body_def members_def ValueKind_def)
  show "\<exists>e. reflectStruct M n definitions fv = Inl e"
  proof (cases n)
    case 0
    then show ?thesis by simp
  next
    case (Suc j)
    with p [of j] show ?thesis by blast
  qed
qed

lemma reflectField_embedded_fails:
  assumes "PkgPath f = []" and "Anonymous f" and "rs definitions fv = Inl e"
  shows "reflectField rt rs (f, fv) definitions cur = Inl e"
  using assms by (simp add: reflectField_def)

lemma reflectFields_embedded_fails:
  assumes "(f, fv) \<in> set ms" and "PkgPath f = []" and "Anonymous f"
    and "\<And>defs. \<exists>e. rs defs fv = Inl e"
  shows "\<exists>e. reflectFields rt rs ms definitions cur = Inl e"
  using assms(1)
proof (induction ms arbitrary: definitions cur)
  case Nil
  then show ?case by simp
next
  case (Cons m ms)
  show ?case
  proof (cases "reflectField rt rs m definitions cur")
    case (Inl e)
    then show ?thesis by simp
  next
    case (Inr r)
    obtain cur' defs' where r: "r = (cur', defs')" by (cases r)
    have "m \<noteq> (f, fv)"
    proof
      assume "m = (f, fv)"
      moreover obtain e where "rs definitions fv = Inl e" using assms(4) by blast
      ultimately have "reflectField rt rs m definitions cur = Inl e"
        using assms(2,3) by (simp add: reflectField_embedded_fails)
      with Inr show False by simp
    qed
    with Cons.prems have "(f, fv) \<in> set ms" by simp
    from Cons.IH [OF this] obtain e where "reflectFields rt rs ms defs' cur' = Inl e"
      by blast
    with Inr r show ?thesis by simp
  qed
qed

text \<open>
  What \<open>applyValidation\<close> writes for each of the three kinds it has a case for; a node of
  any other kind is returned as it is, and the children of a node are never touched.
\<close>

lemma applyValidation_string:
  "Type (attrs dst) = tTypeString \<Longrightarrow>
     attrs (applyValidation dst t)
       = (attrs dst)\<lparr>MinLength := minLength t, MaxLength := maxLength t,
                      Format := (if format t \<noteq> [] then format t else Format (attrs dst))\<rparr>"
  by (cases dst) (simp add: applyValidation_def with_attrs_def)

lemma applyValidation_number:
  "Type (attrs dst) = tTypeNumber \<Longrightarrow>
     attrs (applyValidation dst t)
       = (attrs dst)\<lparr>MultipleOf := multipleOf t, Minimum := minimum t, Maximum := maximum t,
                      ExclusiveMinimum := exclusiveMinimum t,
                      ExclusiveMaximum := exclusiveMaximum t\<rparr>"
  by (cases dst)
     (simp add: applyValidation_def with_attrs_def tTypeNumber_def tTypeString_def)

lemma applyValidation_array:
  "Type (attrs dst) = tTypeArray \<Longrightarrow>
     attrs (applyValidation dst t)
       = (attrs dst)\<lparr>MinItems := minItems t, MaxItems := maxItems t,
                      UniqueItems := uniqueItems t\<rparr>"
  by (cases dst)
     (simp add: applyValidation_def with_attrs_def tTypeArray_def tTypeNumber_def
        tTypeString_def)

lemma applyValidation_other:
  "Type (attrs dst) \<notin> {tTypeString, tTypeNumber, tTypeArray} \<Longrightarrow> applyValidation dst t = dst"
  by (simp add: applyValidation_def)

section \<open>The claims\<close>




text \<open>
  C2, as amended. \<open>reflectType\<close> ends in \<open>return reflectInterface(definitions, t, v)\<close>: a
  value whose kind matches no case of the switch (the zero Value, a channel, a function, a
  complex number, an array, a pointer or an interface left after the two first steps, a
  \<open>uintptr\<close>, an unsafe pointer), of a type that is none of the three known by identity and
  has none of the capabilities, is walked to the open object node with
  \<open>additionalProperties\<close> true. The walk does not fail and leaves the registry as it was.
\<close>

theorem unmatched_kind_is_open_object:
  assumes "deref t v = Inr v1"
    and "t \<noteq> typeTime" and "t \<noteq> typeIP" and "t \<noteq> typeURI"
    and "\<forall>i. \<not> Implements t i"
    and "ValueKind (unwrap v1) \<in> {KInvalid, KUintptr, KComplex64, KComplex128, KArray, KChan,
                                   KFunc, KInterface, KPtr, KUnsafePointer}"
  shows "reflectType M (Suc n) definitions (Some t) v root
           = Inr (leaf (noAttrs\<lparr>Type := ''object'', AdditionalProperties := ''true''\<rparr>),
                  definitions)"
  using assms
  by (auto simp: reflectType_body_def dispatch_def reflectInterface_def tTypeObject_def)

theorem unmatched_kind_is_open_object_witness:
  "deref tChan (Value tChan DNil) = Inr (Value tChan DNil)
   \<and> tChan \<noteq> typeTime \<and> tChan \<noteq> typeIP \<and> tChan \<noteq> typeURI
   \<and> (\<forall>i. \<not> Implements tChan i)
   \<and> ValueKind (unwrap (Value tChan DNil)) = KChan
   \<and> reflectType noMethods 1 [] (Some tChan) (Value tChan DNil) False
       = Inr (leaf (noAttrs\<lparr>Type := ''object'', AdditionalProperties := ''true''\<rparr>), [])"
proof -
  have d: "deref tChan (Value tChan DNil) = Inr (Value tChan DNil)"
    by (simp add: deref_def ValueKind_def tChan_def)
  have k: "ValueKind (unwrap (Value tChan DNil)) = KChan"
    by (simp add: unwrap_def ValueKind_def tChan_def)
  have w: "tChan \<noteq> typeTime" "tChan \<noteq> typeIP" "tChan \<noteq> typeURI"
    by (simp_all add: tChan_def typeTime_def typeIP_def typeURI_def)
  have i: "\<forall>i. \<not> Implements tChan i"
    by (simp add: Implements_def tChan_def)
  from unmatched_kind_is_open_object [OF d w i, of noMethods 0 "[]" False] d k w i
  show ?thesis by simp
qed

text \<open>
  C2 as stated fails: reflecting a channel returns a schema, the open object node, where
  the claim has the call fail with an unsupported-type error.
\<close>

theorem unsupported_kind_counterexample:
  "Reflect noMethods ''draft-04'' 1 (Some (tChan, DNil))
     = Inr (leaf (noAttrs\<lparr>Version := ''draft-04'', Type := ''object'',
                            AdditionalProperties := ''true''\<rparr>), [])
   \<and> Kind tChan = KChan"
  by code_simp

text \<open>
  C3. \<open>reflectStruct\<close> reads \<open>tags.name\<close> and \<open>tags.ignored\<close> of a member and never
  \<open>tags.required\<close>: no statement of the walker writes the \<open>required\<close> set of a node. The
  object node it returns has the attributes of \<open>newType(tTypeObject)\<close>, with an empty
  \<open>required\<close> set, also when a visible, named, non-ignored member is marked required,
  against the claim.
\<close>

theorem reflectStruct_sets_no_required:
  "reflectStruct M n definitions v = Inr (node, defs) \<Longrightarrow>
     attrs node = attrs (newType tTypeObject) \<and> Required (attrs node) = []"
proof (cases n)
  case 0
  assume "reflectStruct M n definitions v = Inr (node, defs)"
  with 0 show ?thesis by simp
next
  case (Suc k)
  assume r: "reflectStruct M n definitions v = Inr (node, defs)"
  then obtain ms where
    "reflectFields (reflectType M k) (reflectStruct M k) ms definitions (newType tTypeObject)
       = Inr (node, defs)"
    using Suc by (auto simp: reflectStruct_body_def split: sum.splits)
  then have "attrs node = attrs (newType tTypeObject)"
    by (rule reflectFields_attrs)
  then show ?thesis by (simp add: newType_def leaf_def noAttrs_def)
qed

theorem reflectStruct_sets_no_required_witness:
  "required (parseTags [(''json'', ''family_name''), (''required'', ''true'')])
   \<and> name (parseTags [(''json'', ''family_name''), (''required'', ''true'')]) = ''family_name''
   \<and> \<not> ignored (parseTags [(''json'', ''family_name''), (''required'', ''true'')])
   \<and> reflectStruct noMethods 2 [] (Value tGrandfather (DStruct [DString ''Smith'']))
       = Inr (set_Properties
                [(''family_name'',
                  leaf (noAttrs\<lparr>Type := ''string'',
                                  Default := Some (tString, DString ''Smith'')\<rparr>))]
                (newType tTypeObject), [])
   \<and> Required (attrs (set_Properties
                [(''family_name'',
                  leaf (noAttrs\<lparr>Type := ''string'',
                                  Default := Some (tString, DString ''Smith'')\<rparr>))]
                (newType tTypeObject))) = []"
proof -
  have t: "required (parseTags [(''json'', ''family_name''), (''required'', ''true'')])
     \<and> name (parseTags [(''json'', ''family_name''), (''required'', ''true'')]) = ''family_name''
     \<and> \<not> ignored (parseTags [(''json'', ''family_name''), (''required'', ''true'')])"
    by code_simp
  have r: "reflectStruct noMethods 2 [] (Value tGrandfather (DStruct [DString ''Smith'']))
       = Inr (set_Properties
                [(''family_name'',
                  leaf (noAttrs\<lparr>Type := ''string'',
                                  Default := Some (tString, DString ''Smith'')\<rparr>))]
                (newType tTypeObject), [])"
    by code_simp
  from reflectStruct_sets_no_required [OF r] t r show ?thesis by simp
qed


text \<open>
  C5, as amended. For a sequence whose type is not \<open>[]byte\<close>, \<open>reflectSlice\<close> walks
  \<open>reflect.New(v.Type().Elem())\<close>, a pointer to a fresh zero value of the element type,
  under the pointer type, and never an element of the sequence: the result is the same
  for every contents of the sequence. When that walk returns \<open>items\<close>, the node is of kind
  \<open>array\<close> with these items; when it fails, so does \<open>reflectSlice\<close>.
\<close>

theorem reflectSlice_walks_zero_element:
  assumes "t \<noteq> typeByteSlice" and "Elem t = Inr et"
  shows "reflectSlice rt definitions (Value t d) = reflectSlice rt definitions (Value t d')
       \<and> (\<forall>items defs. rt definitions (Some (PtrTo et)) (New et) False = Inr (items, defs) \<longrightarrow>
             (\<exists>node. reflectSlice rt definitions (Value t d) = Inr (node, defs)
                \<and> Type (attrs node) = ''array'' \<and> Items node = Some items))
       \<and> (\<forall>e. rt definitions (Some (PtrTo et)) (New et) False = Inl e \<longrightarrow>
             reflectSlice rt definitions (Value t d) = Inl e)"
  using assms
  by (auto simp: reflectSlice_def ValueType_def Let_def newType_def leaf_def with_attrs_def
      set_Items_def)

theorem reflectSlice_walks_zero_element_witness:
  "sliceOf tString \<noteq> typeByteSlice \<and> Elem (sliceOf tString) = Inr tString
   \<and> reflectType noMethods 1 [] (Some (PtrTo tString)) (New tString) False
       = Inr (leaf (noAttrs\<lparr>Type := ''string'', Default := Some (tString, DString [])\<rparr>), [])
   \<and> reflectSlice (reflectType noMethods 1) [] (Value (sliceOf tString) (DSeq [DString ''a'']))
       = reflectSlice (reflectType noMethods 1) [] (Value (sliceOf tString) DNil)
   \<and> (\<exists>node. reflectSlice (reflectType noMethods 1) []
                 (Value (sliceOf tString) (DSeq [DString ''a''])) = Inr (node, [])
          \<and> Type (attrs node) = ''array''
          \<and> Items node
              = Some (leaf (noAttrs\<lparr>Type := ''string'',
                                      Default := Some (tString, DString [])\<rparr>)))"
proof -
  have n: "sliceOf tString \<noteq> typeByteSlice"
    by (simp add: sliceOf_def typeByteSlice_def tString_def predeclared_def)
  have e: "Elem (sliceOf tString) = Inr tString"
    by (simp add: Elem_def sliceOf_def)
  have w: "reflectType noMethods 1 [] (Some (PtrTo tString)) (New tString) False
       = Inr (leaf (noAttrs\<lparr>Type := ''string'', Default := Some (tString, DString [])\<rparr>), [])"
    by code_simp
  note th = reflectSlice_walks_zero_element
         [OF n e, of "reflectType noMethods 1" "[]" "DSeq [DString ''a'']" DNil]
  have eq: "reflectSlice (reflectType noMethods 1) []
              (Value (sliceOf tString) (DSeq [DString ''a'']))
            = reflectSlice (reflectType noMethods 1) [] (Value (sliceOf tString) DNil)"
    using th by blast
  have ex: "\<exists>node. reflectSlice (reflectType noMethods 1) []
                 (Value (sliceOf tString) (DSeq [DString ''a''])) = Inr (node, [])
          \<and> Type (attrs node) = ''array''
          \<and> Items node
              = Some (leaf (noAttrs\<lparr>Type := ''string'',
                                      Default := Some (tString, DString [])\<rparr>))"
    using th w by blast
  show ?thesis using n e w eq ex by blast
qed

text \<open>
  C5 as stated fails: the sequence of the one string \<open>a\<close> has a first element, which
  \<open>getSliceValue\<close> would return, and the walk of that element is the string node with
  default \<open>a\<close>; the items \<open>reflectSlice\<close> returns are the string node with the empty
  default, the walk of a zero value.
\<close>

theorem first_element_counterexample:
  "getSliceValue (Value (sliceOf tString) (DSeq [DString ''a'']))
     = Inr (Value tString (DString ''a''))
   \<and> reflectType noMethods 1 [] (Some tString) (Value tString (DString ''a'')) False
     = Inr (leaf (noAttrs\<lparr>Type := ''string'', Default := Some (tString, DString ''a'')\<rparr>), [])
   \<and> reflectSlice (reflectType noMethods 1) [] (Value (sliceOf tString) (DSeq [DString ''a'']))
     = Inr (set_Items
              (Some (leaf (noAttrs\<lparr>Type := ''string'',
                                      Default := Some (tString, DString [])\<rparr>)))
              (newType ''array''), [])
   \<and> leaf (noAttrs\<lparr>Type := ''string'', Default := Some (tString, DString ''a'')\<rparr>)
     \<noteq> leaf (noAttrs\<lparr>Type := ''string'', Default := Some (tString, DString [])\<rparr>)"
  by code_simp

text \<open>
  C6. \<open>applyValidation\<close> switches on the kind of the node and has the cases \<open>string\<close>,
  \<open>number\<close> and \<open>array\<close> only. A node of kind \<open>integer\<close> matches none of them: it is
  returned as it was, so its \<open>minimum\<close>, \<open>maximum\<close>, \<open>exclusiveMinimum\<close>,
  \<open>exclusiveMaximum\<close> and \<open>multipleOf\<close> are not set from the descriptor, against the claim.
\<close>

theorem applyValidation_skips_integer:
  "Type (attrs dst) = tTypeInteger \<Longrightarrow> applyValidation dst t = dst"
  by (simp add: applyValidation_def tTypeInteger_def tTypeString_def tTypeNumber_def
      tTypeArray_def)

theorem applyValidation_skips_integer_witness:
  "Type (attrs (leaf (noAttrs\<lparr>Type := tTypeInteger\<rparr>))) = tTypeInteger
   \<and> minimum (parseTags [(''json'', ''age''), (''minimum'', ''18''), (''maximum'', ''120'')]) = 18
   \<and> maximum (parseTags [(''json'', ''age''), (''minimum'', ''18''), (''maximum'', ''120'')]) = 120
   \<and> applyValidation (leaf (noAttrs\<lparr>Type := tTypeInteger\<rparr>))
        (parseTags [(''json'', ''age''), (''minimum'', ''18''), (''maximum'', ''120'')])
       = leaf (noAttrs\<lparr>Type := tTypeInteger\<rparr>)
   \<and> Minimum (attrs (leaf (noAttrs\<lparr>Type := tTypeInteger\<rparr>))) = 0
   \<and> Minimum (attrs (applyValidation (leaf (noAttrs\<lparr>Type := tTypeNumber\<rparr>))
        (parseTags [(''json'', ''age''), (''minimum'', ''18''), (''maximum'', ''120'')]))) = 18"
proof -
  have k: "Type (attrs (leaf (noAttrs\<lparr>Type := tTypeInteger\<rparr>))) = tTypeInteger"
    by (simp add: leaf_def)
  have lo: "minimum (parseTags [(''json'', ''age''), (''minimum'', ''18''), (''maximum'', ''120'')]) = 18"
    by code_simp
  have hi: "maximum (parseTags [(''json'', ''age''), (''minimum'', ''18''), (''maximum'', ''120'')]) = 120"
    by code_simp
  have z: "Minimum (attrs (leaf (noAttrs\<lparr>Type := tTypeInteger\<rparr>))) = 0"
    by (simp add: leaf_def noAttrs_def)
  have num: "Minimum (attrs (applyValidation (leaf (noAttrs\<lparr>Type := tTypeNumber\<rparr>))
        (parseTags [(''json'', ''age''), (''minimum'', ''18''), (''maximum'', ''120'')]))) = 18"
    by code_simp
  from applyValidation_skips_integer [OF k] k lo hi z num show ?thesis by simp
qed

text \<open>
  C7. After the pointer and interface steps, \<open>reflectType\<close> tests the capabilities of the
  type in the order \<open>protoEnum\<close>, one-of, any-of, all-of, \<open>enumType\<close>, and the result is that
  of the handler of the first one the type implements, whatever later ones it implements
  too. The handler of \<open>protoEnum\<close> returns a node whose \<open>oneOf\<close> is the list of a node of
  kind \<open>string\<close> and a node of kind \<open>integer\<close>, each with nothing else set, and leaves
  the registry as it was.
\<close>

theorem capability_precedence:
  assumes "deref t v = Inr v1"
  shows "(Implements t typePBEnum \<longrightarrow>
            reflectType M (Suc n) definitions (Some t) v root
              = Inr (reflectPBEnum definitions (unwrap v1), definitions)
          \<and> OneOf (reflectPBEnum definitions (unwrap v1))
              = [leaf (noAttrs\<lparr>Type := ''string''\<rparr>), leaf (noAttrs\<lparr>Type := ''integer''\<rparr>)])
       \<and> (\<not> Implements t typePBEnum \<and> Implements t typeOneOf \<longrightarrow>
            reflectType M (Suc n) definitions (Some t) v root
              = reflectOneOf M (reflectType M n) definitions (unwrap v1))
       \<and> (\<not> Implements t typePBEnum \<and> \<not> Implements t typeOneOf \<and> Implements t typeAnyOf \<longrightarrow>
            reflectType M (Suc n) definitions (Some t) v root
              = reflectAnyOf M (reflectType M n) definitions (unwrap v1))
       \<and> (\<not> Implements t typePBEnum \<and> \<not> Implements t typeOneOf \<and> \<not> Implements t typeAnyOf
            \<and> Implements t typeAllOf \<longrightarrow>
            reflectType M (Suc n) definitions (Some t) v root
              = reflectAllOf M (reflectType M n) definitions (unwrap v1))
       \<and> (\<not> Implements t typePBEnum \<and> \<not> Implements t typeOneOf \<and> \<not> Implements t typeAnyOf
            \<and> \<not> Implements t typeAllOf \<and> Implements t typeEnum \<longrightarrow>
            reflectType M (Suc n) definitions (Some t) v root
              = reflectEnum M (reflectType M n) definitions (unwrap v1))"
proof -
  have body: "reflectType M (Suc n) definitions (Some t) v root
      = dispatch M (reflectType M n) (reflectStruct M n) definitions t (unwrap v1) root"
    using assms by (simp add: reflectType_body_def)
  have pb: "OneOf (reflectPBEnum definitions (unwrap v1))
      = [leaf (noAttrs\<lparr>Type := ''string''\<rparr>), leaf (noAttrs\<lparr>Type := ''integer''\<rparr>)]"
    by (simp add: reflectPBEnum_def tTypeString_def tTypeInteger_def)
  show ?thesis
    unfolding body using pb by (auto simp: dispatch_def)
qed

theorem capability_precedence_witness:
  "deref tProtoEnum (Value tProtoEnum (DInt 1)) = Inr (Value tProtoEnum (DInt 1))
   \<and> Implements tProtoEnum typePBEnum \<and> Implements tProtoEnum typeOneOf
   \<and> Implements tProtoEnum typeEnum
   \<and> reflectType threeStrings 1 [] (Some tProtoEnum) (Value tProtoEnum (DInt 1)) False
       = Inr (reflectPBEnum [] (Value tProtoEnum (DInt 1)), [])
   \<and> OneOf (reflectPBEnum [] (Value tProtoEnum (DInt 1)))
       = [leaf (noAttrs\<lparr>Type := ''string''\<rparr>), leaf (noAttrs\<lparr>Type := ''integer''\<rparr>)]
   \<and> \<not> Implements tOneOfImpl typePBEnum \<and> Implements tOneOfImpl typeOneOf
   \<and> Implements tOneOfImpl typeAnyOf \<and> Implements tOneOfImpl typeEnum
   \<and> reflectType threeStrings (Suc 1) [] (Some tOneOfImpl) (Value tOneOfImpl (DStruct [])) False
       = reflectOneOf threeStrings (reflectType threeStrings 1) []
           (Value tOneOfImpl (DStruct []))
   \<and> \<not> Implements tAnyOfImpl typePBEnum \<and> \<not> Implements tAnyOfImpl typeOneOf
   \<and> Implements tAnyOfImpl typeAnyOf \<and> Implements tAnyOfImpl typeAllOf
   \<and> reflectType threeStrings (Suc 1) [] (Some tAnyOfImpl) (Value tAnyOfImpl (DStruct [])) False
       = reflectAnyOf threeStrings (reflectType threeStrings 1) []
           (Value tAnyOfImpl (DStruct []))
   \<and> \<not> Implements tAllOfImpl typePBEnum \<and> \<not> Implements tAllOfImpl typeOneOf
   \<and> \<not> Implements tAllOfImpl typeAnyOf
   \<and> Implements tAllOfImpl typeAllOf \<and> Implements tAllOfImpl typeEnum
   \<and> reflectType threeStrings (Suc 1) [] (Some tAllOfImpl) (Value tAllOfImpl (DStruct [])) False
       = reflectAllOf threeStrings (reflectType threeStrings 1) []
           (Value tAllOfImpl (DStruct []))
   \<and> \<not> Implements tEmptyEnum typePBEnum \<and> \<not> Implements tEmptyEnum typeOneOf
   \<and> \<not> Implements tEmptyEnum typeAnyOf \<and> \<not> Implements tEmptyEnum typeAllOf
   \<and> Implements tEmptyEnum typeEnum
   \<and> reflectType threeStrings (Suc 1) [] (Some tEmptyEnum) (Value tEmptyEnum (DString ''2''))
         False
       = reflectEnum threeStrings (reflectType threeStrings 1) []
           (Value tEmptyEnum (DString ''2''))
   \<and> reflectType threeStrings 2 [] (Some tOneOfImpl) (Value tOneOfImpl (DStruct [])) False
       = Inr (Node (noAttrs\<lparr>Default := Some (tOneOfImpl, DStruct [])\<rparr>) None None
                [leaf (noAttrs\<lparr>Type := ''string'', Default := Some (tString, DString ''1'')\<rparr>),
                 leaf (noAttrs\<lparr>Type := ''string'', Default := Some (tString, DString ''2'')\<rparr>),
                 leaf (noAttrs\<lparr>Type := ''string'', Default := Some (tString, DString ''3'')\<rparr>)]
                [] [] [] [] [], [])"
proof -
  have d1: "deref tProtoEnum (Value tProtoEnum (DInt 1)) = Inr (Value tProtoEnum (DInt 1))"
    by (simp add: deref_def ValueKind_def tProtoEnum_def)
  have u1: "unwrap (Value tProtoEnum (DInt 1)) = Value tProtoEnum (DInt 1)"
    by (simp add: unwrap_def ValueKind_def tProtoEnum_def)
  have i1: "Implements tProtoEnum typePBEnum" "Implements tProtoEnum typeOneOf"
    "Implements tProtoEnum typeEnum"
    by (simp_all add: Implements_def tProtoEnum_def)
  have d2: "deref tOneOfImpl (Value tOneOfImpl (DStruct [])) = Inr (Value tOneOfImpl (DStruct []))"
    by (simp add: deref_def ValueKind_def tOneOfImpl_def)
  have u2: "unwrap (Value tOneOfImpl (DStruct [])) = Value tOneOfImpl (DStruct [])"
    by (simp add: unwrap_def ValueKind_def tOneOfImpl_def)
  have i2: "\<not> Implements tOneOfImpl typePBEnum" "Implements tOneOfImpl typeOneOf"
    "Implements tOneOfImpl typeAnyOf" "Implements tOneOfImpl typeEnum"
    by (simp_all add: Implements_def tOneOfImpl_def)
  have d3: "deref tAnyOfImpl (Value tAnyOfImpl (DStruct [])) = Inr (Value tAnyOfImpl (DStruct []))"
    by (simp add: deref_def ValueKind_def tAnyOfImpl_def)
  have u3: "unwrap (Value tAnyOfImpl (DStruct [])) = Value tAnyOfImpl (DStruct [])"
    by (simp add: unwrap_def ValueKind_def tAnyOfImpl_def)
  have i3: "\<not> Implements tAnyOfImpl typePBEnum" "\<not> Implements tAnyOfImpl typeOneOf"
    "Implements tAnyOfImpl typeAnyOf" "Implements tAnyOfImpl typeAllOf"
    by (simp_all add: Implements_def tAnyOfImpl_def)
  have d4: "deref tAllOfImpl (Value tAllOfImpl (DStruct [])) = Inr (Value tAllOfImpl (DStruct []))"
    by (simp add: deref_def ValueKind_def tAllOfImpl_def)
  have u4: "unwrap (Value tAllOfImpl (DStruct [])) = Value tAllOfImpl (DStruct [])"
    by (simp add: unwrap_def ValueKind_def tAllOfImpl_def)
  have i4: "\<not> Implements tAllOfImpl typePBEnum" "\<not> Implements tAllOfImpl typeOneOf"
    "\<not> Implements tAllOfImpl typeAnyOf" "Implements tAllOfImpl typeAllOf"
    "Implements tAllOfImpl typeEnum"
    by (simp_all add: Implements_def tAllOfImpl_def)
  have d5: "deref tEmptyEnum (Value tEmptyEnum (DString ''2''))
            = Inr (Value tEmptyEnum (DString ''2''))"
    by (simp add: deref_def ValueKind_def tEmptyEnum_def)
  have u5: "unwrap (Value tEmptyEnum (DString ''2'')) = Value tEmptyEnum (DString ''2'')"
    by (simp add: unwrap_def ValueKind_def tEmptyEnum_def)
  have i5: "\<not> Implements tEmptyEnum typePBEnum" "\<not> Implements tEmptyEnum typeOneOf"
    "\<not> Implements tEmptyEnum typeAnyOf" "\<not> Implements tEmptyEnum typeAllOf"
    "Implements tEmptyEnum typeEnum"
    by (simp_all add: Implements_def tEmptyEnum_def)
  have r1: "reflectType threeStrings 1 [] (Some tProtoEnum) (Value tProtoEnum (DInt 1)) False
       = Inr (reflectPBEnum [] (Value tProtoEnum (DInt 1)), [])"
    and p1: "OneOf (reflectPBEnum [] (Value tProtoEnum (DInt 1)))
       = [leaf (noAttrs\<lparr>Type := ''string''\<rparr>), leaf (noAttrs\<lparr>Type := ''integer''\<rparr>)]"
    using capability_precedence [OF d1, of threeStrings 0 "[]" False] i1
    unfolding u1 by simp_all
  have r2: "reflectType threeStrings (Suc 1) [] (Some tOneOfImpl)
              (Value tOneOfImpl (DStruct [])) False
       = reflectOneOf threeStrings (reflectType threeStrings 1) []
           (Value tOneOfImpl (DStruct []))"
    using capability_precedence [OF d2, of threeStrings 1 "[]" False] i2
    unfolding u2 by blast
  have r3: "reflectType threeStrings (Suc 1) [] (Some tAnyOfImpl)
              (Value tAnyOfImpl (DStruct [])) False
       = reflectAnyOf threeStrings (reflectType threeStrings 1) []
           (Value tAnyOfImpl (DStruct []))"
    using capability_precedence [OF d3, of threeStrings 1 "[]" False] i3
    unfolding u3 by blast
  have r4: "reflectType threeStrings (Suc 1) [] (Some tAllOfImpl)
              (Value tAllOfImpl (DStruct [])) False
       = reflectAllOf threeStrings (reflectType threeStrings 1) []
           (Value tAllOfImpl (DStruct []))"
    using capability_precedence [OF d4, of threeStrings 1 "[]" False] i4
    unfolding u4 by blast
  have r5: "reflectType threeStrings (Suc 1) [] (Some tEmptyEnum)
              (Value tEmptyEnum (DString ''2'')) False
       = reflectEnum threeStrings (reflectType threeStrings 1) []
           (Value tEmptyEnum (DString ''2''))"
    using capability_precedence [OF d5, of threeStrings 1 "[]" False] i5
    unfolding u5 by blast
  have e: "reflectType threeStrings 2 [] (Some tOneOfImpl) (Value tOneOfImpl (DStruct [])) False
       = Inr (Node (noAttrs\<lparr>Default := Some (tOneOfImpl, DStruct [])\<rparr>) None None
                [leaf (noAttrs\<lparr>Type := ''string'', Default := Some (tString, DString ''1'')\<rparr>),
                 leaf (noAttrs\<lparr>Type := ''string'', Default := Some (tString, DString ''2'')\<rparr>),
                 leaf (noAttrs\<lparr>Type := ''string'', Default := Some (tString, DString ''3'')\<rparr>)]
                [] [] [] [] [], [])"
    by code_simp
  show ?thesis
    using d1 i1 r1 p1 i2 r2 i3 r3 i4 r4 i5 r5 e by blast
qed




text \<open>
  C9. \<open>reflectEnum\<close> reads \<open>variants[0]\<close> without a test. When the method \<open>Enum\<close> of the value
  returns the empty list the handler panics with an index out of range, and so it returns a
  node only if the list has a first variant.
\<close>

theorem reflectEnum_needs_a_variant:
  assumes "Interface v = Inr x" and "call M typeEnum x = Inr variants"
  shows "(variants = [] \<longrightarrow>
            reflectEnum M rt definitions v
              = Inl (Panic ''runtime error: index out of range [0] with length 0''))
       \<and> ((\<exists>r. reflectEnum M rt definitions v = Inr r) \<longrightarrow> variants \<noteq> [])"
  using assms by (auto simp: reflectEnum_def)

theorem reflectEnum_needs_a_variant_witness:
  "Interface (Value tEmptyEnum (DString ''a'')) = Inr (Some (tEmptyEnum, DString ''a''))
   \<and> call noMethods typeEnum (Some (tEmptyEnum, DString ''a'')) = Inr []
   \<and> reflectEnum noMethods (reflectType noMethods 1) [] (Value tEmptyEnum (DString ''a''))
        = Inl (Panic ''runtime error: index out of range [0] with length 0'')
   \<and> reflectType noMethods 2 [] (Some tEmptyEnum) (Value tEmptyEnum (DString ''a'')) False
        = Inl (Panic ''runtime error: index out of range [0] with length 0'')"
proof -
  have i: "Interface (Value tEmptyEnum (DString ''a'')) = Inr (Some (tEmptyEnum, DString ''a''))"
    by (simp add: Interface_def tEmptyEnum_def)
  have c: "call noMethods typeEnum (Some (tEmptyEnum, DString ''a'')) = Inr []"
    by (simp add: call_def Implements_def tEmptyEnum_def noMethods_def)
  have w: "reflectType noMethods 2 [] (Some tEmptyEnum) (Value tEmptyEnum (DString ''a'')) False
        = Inl (Panic ''runtime error: index out of range [0] with length 0'')"
    by code_simp
  from reflectEnum_needs_a_variant [OF i c, of "reflectType noMethods 1" "[]"] i c w
  show ?thesis by simp
qed

text \<open>
  C10, as amended. \<open>reflectStruct\<close> skips an unexported member before it looks whether the
  member is embedded. On an exported embedded member it calls itself on the value of
  the member, and there \<open>NumField\<close> panics unless that value is of struct kind. So for a
  struct with an exported embedded member that is not of struct kind, \<open>reflectStruct\<close>
  returns no node, whatever the bound on the depth: it returns a node only if all exported
  embedded members are structs.
\<close>

theorem embedded_member_must_be_struct:
  assumes "members v = Inr ms" and "(f, fv) \<in> set ms"
    and "PkgPath f = []" and "Anonymous f" and "ValueKind fv \<noteq> KStruct"
  shows "(\<exists>msg. reflectStruct M (Suc k) defs fv = Inl (Panic msg))
       \<and> (\<forall>n. \<exists>e. reflectStruct M n definitions v = Inl e)"
proof
  show "\<exists>msg. reflectStruct M (Suc k) defs fv = Inl (Panic msg)"
    using assms(5) by (rule reflectStruct_non_struct)
  show "\<forall>n. \<exists>e. reflectStruct M n definitions v = Inl e"
  proof
    fix n
    show "\<exists>e. reflectStruct M n definitions v = Inl e"
    proof (cases n)
      case 0
      then show ?thesis by simp
    next
      case (Suc j)
      have "\<exists>e. reflectFields (reflectType M j) (reflectStruct M j) ms definitions
                  (newType tTypeObject) = Inl e"
        using assms(2,3,4) reflectStruct_non_struct(2) [OF assms(5)]
        by (rule reflectFields_embedded_fails)
      with Suc assms(1) show ?thesis by (simp add: reflectStruct_body_def)
    qed
  qed
qed

theorem embedded_member_must_be_struct_witness:
  "members (Value tColorPicker (DStruct [DString ''red'']))
     = Inr [(StructField ''String'' [] tNamedString [] True,
             Value tNamedString (DString ''red''))]
   \<and> PkgPath (StructField ''String'' [] tNamedString [] True) = []
   \<and> Anonymous (StructField ''String'' [] tNamedString [] True)
   \<and> ValueKind (Value tNamedString (DString ''red'')) = KString
   \<and> (\<forall>n. \<exists>e. reflectStruct noMethods n [] (Value tColorPicker (DStruct [DString ''red'']))
                  = Inl e)
   \<and> reflectStruct noMethods 2 [] (Value tColorPicker (DStruct [DString ''red'']))
       = Inl (Panic ''reflect: call of reflect.Value.NumField on non-struct Value'')"
proof -
  have m: "members (Value tColorPicker (DStruct [DString ''red'']))
     = Inr [(StructField ''String'' [] tNamedString [] True,
             Value tNamedString (DString ''red''))]"
    by (simp add: members_def tColorPicker_def)
  have i: "(StructField ''String'' [] tNamedString [] True, Value tNamedString (DString ''red''))
           \<in> set [(StructField ''String'' [] tNamedString [] True,
                    Value tNamedString (DString ''red''))]"
    by simp
  have p: "PkgPath (StructField ''String'' [] tNamedString [] True) = []"
    and a: "Anonymous (StructField ''String'' [] tNamedString [] True)"
    by simp_all
  have k: "ValueKind (Value tNamedString (DString ''red'')) = KString"
    by (simp add: ValueKind_def tNamedString_def)
  then have k': "ValueKind (Value tNamedString (DString ''red'')) \<noteq> KStruct"
    by simp
  have e: "reflectStruct noMethods 2 [] (Value tColorPicker (DStruct [DString ''red'']))
       = Inl (Panic ''reflect: call of reflect.Value.NumField on non-struct Value'')"
    by code_simp
  from embedded_member_must_be_struct [OF m i p a k', of noMethods 0 "[]" "[]"] m p a k e
  show ?thesis by blast
qed

text \<open>
  C10 as stated fails: \<open>picker\<close> embeds the unexported string type \<open>str\<close>, a member that is
  not a struct, and its walk returns the empty object node.
\<close>

theorem unexported_embedded_counterexample:
  "members (Value tpicker (DStruct [DString ''red'']))
     = Inr [(StructField ''str'' ''main'' tstr [] True, Value tstr (DString ''red''))]
   \<and> Anonymous (StructField ''str'' ''main'' tstr [] True)
   \<and> ValueKind (Value tstr (DString ''red'')) = KString
   \<and> reflectStruct noMethods 1 [] (Value tpicker (DStruct [DString ''red'']))
       = Inr (newType ''object'', [])"
  by code_simp

end
